theory Spec2Isabelle
  imports Complex_Main "HOL-Library.Word"
begin

unbundle bit_operations_syntax

section \<open>Data model (app/features/chat/models.py)\<close>

text \<open>
  Python \<open>str\<close> values are modelled as \<open>string\<close>; one \<open>char\<close> of the model stands
  for one character of the Python string. Optional values (\<open>T | None\<close>) are
  \<open>option\<close>s. \<open>dict[str, Any]\<close> is an association list over a small JSON value
  type; the program never inspects it.
\<close>

datatype json =
    JNull
  | JBool bool
  | JInt int
  | JStr string
  | JArr "json list"
  | JObj "(string \<times> json) list"

text \<open>\<open>class ContentPart\<close>: \<open>type: str\<close>, \<open>text: str | None\<close>, \<open>image_url: dict | None\<close>.\<close>

record ContentPart =
  part_type :: string
  part_text :: "string option"
  part_image_url :: "(string \<times> json) list option"

text \<open>\<open>role: Literal["system", "user", "assistant"]\<close>.\<close>

datatype Role = System | User | Assistant

text \<open>\<open>content: str | list[ContentPart]\<close>.\<close>

datatype Content = Str string | Parts "ContentPart list"

record ChatMessage =
  role :: Role
  content :: Content

text \<open>
  \<open>class ChatCompletionRequest\<close>. The three \<open>float | None\<close> fields are modelled
  over \<open>real\<close>: the program stores them and never computes with them.
\<close>

record ChatCompletionRequest =
  model :: string
  messages :: "ChatMessage list"
  stream :: bool
  temperature :: "real option"
  max_tokens :: "int option"
  top_p :: "real option"
  frequency_penalty :: "real option"

record ResponseMessage =
  rm_role :: string
  rm_content :: string

record Choice =
  index :: int
  message :: ResponseMessage
  finish_reason :: string

record Usage =
  prompt_tokens :: int
  completion_tokens :: int
  total_tokens :: int

record ChatCompletionResponse =
  cr_id :: string
  cr_object :: string
  cr_created :: int
  cr_model :: string
  cr_choices :: "Choice list"
  cr_usage :: Usage

section \<open>Exceptions and effects\<close>

text \<open>
  Every exception the modelled code can raise or let through. \<open>HTTPException\<close> carries
  the status code and the detail string. \<open>BaseException\<close> stands for an exception that
  is not an instance of \<open>Exception\<close> (\<open>asyncio.CancelledError\<close>,
  \<open>KeyboardInterrupt\<close>, \<open>SystemExit\<close>), with the name of its class.
\<close>

datatype error =
    ValueError string
  | TypeError string
  | HTTPException nat string
  | BaseException string

text \<open>Values of the keyword arguments passed to the structured logger.\<close>

datatype logval = LStr string | LInt int | LBool bool | LNone

text \<open>
  Observable effects, in the order in which they happen: a log call (level, event name,
  fields), a call of the message adapter, and a call of the external agent
  (\<open>vault_agent.iter\<close>) with its three arguments.
\<close>

datatype ModelMessage =
    ModelRequest "string list"
  | ModelResponse "string list"

record VaultDependencies =
  vault_path :: string

datatype event =
    Log string string "(string \<times> logval) list"
  | AdapterCall "ChatMessage list"
  | AgentCall string "ModelMessage list" VaultDependencies

section \<open>Text normalisation (ChatMessage.text_content)\<close>

text \<open>Python truthiness of a \<open>str | None\<close>: \<open>None\<close> and the empty string are falsy.\<close>

fun truthy_str :: "string option \<Rightarrow> bool" where
  "truthy_str None = False"
| "truthy_str (Some s) = (s \<noteq> [])"

text \<open>
  \<open>"".join(items)\<close>: raises \<open>TypeError\<close> as soon as an item is not a string
  (here: is \<open>None\<close>).
\<close>

fun str_join :: "string option list \<Rightarrow> error + string" where
  "str_join [] = Inr []"
| "str_join (None # rest) = Inl (TypeError ''sequence item: expected str instance, NoneType found'')"
| "str_join (Some s # rest) =
     (case str_join rest of Inl e \<Rightarrow> Inl e | Inr t \<Rightarrow> Inr (s @ t))"

text \<open>
  \<^verbatim>\<open>
  if isinstance(self.content, str):
      return self.content
  return "".join(part.text for part in self.content if part.type == "text" and part.text)
  \<close>
\<close>

fun text_content :: "ChatMessage \<Rightarrow> error + string" where
  "text_content msg =
     (case content msg of
        Str s \<Rightarrow> Inr s
      | Parts ps \<Rightarrow>
          str_join (map part_text
            (filter (\<lambda>part. part_type part = ''text'' \<and> truthy_str (part_text part)) ps)))"

text \<open>
  The normalisation as the specification words it: the texts of exactly the text-typed
  parts, concatenated in list order; a part without text has nothing to contribute.
\<close>

definition text_of_part :: "ContentPart \<Rightarrow> string" where
  "text_of_part part = (case part_text part of None \<Rightarrow> [] | Some s \<Rightarrow> s)"

definition normalized_text :: "ChatMessage \<Rightarrow> string" where
  "normalized_text msg =
     (case content msg of
        Str s \<Rightarrow> s
      | Parts ps \<Rightarrow> concat (map text_of_part (filter (\<lambda>part. part_type part = ''text'') ps)))"

section \<open>Message adapter (app/shared/openai_adapter.py)\<close>

text \<open>
  The first loop of \<open>openai_messages_to_pydantic\<close>, run over \<open>reversed(messages)\<close>.
  The state is \<open>(user_prompt, system_skipped, prior_messages)\<close>.
  \<^verbatim>\<open>
  for msg in reversed(messages):
      if msg.role == "user" and user_prompt is None:
          user_prompt = msg.text_content
      elif msg.role == "system":
          system_skipped += 1
      else:
          prior_messages.append(msg)
  \<close>
\<close>

fun scan_messages ::
  "ChatMessage list \<Rightarrow> string option \<times> nat \<times> ChatMessage list
     \<Rightarrow> error + (string option \<times> nat \<times> ChatMessage list)" where
  "scan_messages [] st = Inr st"
| "scan_messages (msg # rest) (user_prompt, system_skipped, prior_messages) =
     (if role msg = User \<and> user_prompt = None then
        (case text_content msg of
           Inl e \<Rightarrow> Inl e
         | Inr t \<Rightarrow> scan_messages rest (Some t, system_skipped, prior_messages))
      else if role msg = System then
        scan_messages rest (user_prompt, system_skipped + 1, prior_messages)
      else
        scan_messages rest (user_prompt, system_skipped, prior_messages @ [msg]))"

text \<open>
  The second loop, over the re-reversed \<open>prior_messages\<close>, appending to \<open>history\<close>.
  \<open>ModelRequest(parts=[UserPromptPart(content=t)])\<close> is \<open>ModelRequest [t]\<close>,
  \<open>ModelResponse(parts=[TextPart(content=t)])\<close> is \<open>ModelResponse [t]\<close>.
\<close>

fun build_history :: "ChatMessage list \<Rightarrow> ModelMessage list \<Rightarrow> error + ModelMessage list" where
  "build_history [] history = Inr history"
| "build_history (msg # rest) history =
     (if role msg = User then
        (case text_content msg of
           Inl e \<Rightarrow> Inl e
         | Inr t \<Rightarrow> build_history rest (history @ [ModelRequest [t]]))
      else if role msg = Assistant then
        (case text_content msg of
           Inl e \<Rightarrow> Inl e
         | Inr t \<Rightarrow> build_history rest (history @ [ModelResponse [t]]))
      else build_history rest history)"

text \<open>The function returns the events it caused (one log record on success) and its result.\<close>

definition openai_messages_to_pydantic ::
  "ChatMessage list \<Rightarrow> event list \<times> (error + string \<times> ModelMessage list)" where
  "openai_messages_to_pydantic msgs =
     (if msgs = [] then ([], Inl (ValueError ''Messages array must not be empty.''))
      else
        (case scan_messages (rev msgs) (None, 0, []) of
           Inl e \<Rightarrow> ([], Inl e)
         | Inr (user_prompt, system_skipped, prior_messages) \<Rightarrow>
             (case user_prompt of
                None \<Rightarrow> ([], Inl (ValueError ''Messages must contain at least one user message.''))
              | Some prompt \<Rightarrow>
                  (case build_history (rev prior_messages) [] of
                     Inl e \<Rightarrow> ([], Inl e)
                   | Inr history \<Rightarrow>
                       ([Log ''info'' ''adapter.openai.messages_converted''
                           [(''total_messages'', LInt (int (length msgs))),
                            (''history_messages'', LInt (int (length history))),
                            (''system_messages_skipped'', LInt (int system_skipped))]],
                        Inr (prompt, history))))))"

text \<open>
  The history as the specification words it: a retained user message becomes a request
  record, a retained assistant message a response record.
\<close>

definition history_record :: "ChatMessage \<Rightarrow> ModelMessage" where
  "history_record msg =
     (if role msg = User then ModelRequest [normalized_text msg]
      else ModelResponse [normalized_text msg])"

text \<open>Auxiliary notions used to state what the two loops compute.\<close>

definition not_system :: "ChatMessage \<Rightarrow> bool" where
  "not_system msg = (role msg \<noteq> System)"

definition count_system :: "ChatMessage list \<Rightarrow> nat" where
  "count_system msgs = length (filter (\<lambda>msg. role msg = System) msgs)"

section \<open>Response builder (app/shared/openai_adapter.py)\<close>

text \<open>
  What \<open>build_chat_response\<close> reads from outside: the 128-bit integer of the UUID
  that \<open>uuid.uuid4()\<close> returns at this call, and \<open>int(utcnow().timestamp())\<close>.
\<close>

record Env =
  uuid4 :: "128 word"
  utcnow_timestamp :: int

definition hex_digit :: "nat \<Rightarrow> char" where
  "hex_digit n = ''0123456789abcdef'' ! n"

text \<open>
  \<open>UUID.hex\<close> is \<open>'%032x' % self.int\<close>: 32 lowercase hexadecimal digits, the most
  significant first.
\<close>

definition uuid_hex :: "128 word \<Rightarrow> string" where
  "uuid_hex u = map (\<lambda>i. hex_digit (unat (drop_bit (4 * i) u AND 15))) (rev [0..<32])"

text \<open>\<open>n or 0\<close> for \<open>n: int | None\<close>: \<open>None\<close> and \<open>0\<close> are falsy.\<close>

fun or_zero :: "int option \<Rightarrow> int" where
  "or_zero None = 0"
| "or_zero (Some n) = (if n = 0 then 0 else n)"

text \<open>
  The fields the call leaves out take the defaults of the response models:
  \<open>object = "chat.completion"\<close>, \<open>index = 0\<close>, \<open>role = "assistant"\<close>,
  \<open>finish_reason = "stop"\<close>.
\<close>

definition build_chat_response ::
  "Env \<Rightarrow> string \<Rightarrow> string \<Rightarrow> int option \<Rightarrow> int option \<Rightarrow> int option
     \<Rightarrow> ChatCompletionResponse" where
  "build_chat_response env output model_name request_tokens response_tokens total_count =
     (let response_id = ''chatcmpl-'' @ take 29 (uuid_hex (uuid4 env));
          created = utcnow_timestamp env
      in \<lparr> cr_id = response_id,
           cr_object = ''chat.completion'',
           cr_created = created,
           cr_model = model_name,
           cr_choices =
             [\<lparr> index = 0,
                message = \<lparr> rm_role = ''assistant'', rm_content = output \<rparr>,
                finish_reason = ''stop'' \<rparr>],
           cr_usage =
             \<lparr> prompt_tokens = or_zero request_tokens,
               completion_tokens = or_zero response_tokens,
               total_tokens = or_zero total_count \<rparr> \<rparr>)"

section \<open>Route handler (app/features/chat/routes.py)\<close>

text \<open>The two settings the route reads from \<open>get_settings()\<close>.\<close>

record Settings =
  api_key :: string
  obsidian_vault_path :: string

text \<open>
  The external agent. One run either raises an instance of \<open>Exception\<close>
  (\<open>AgentRaises\<close>, with its \<open>str(e)\<close>), or raises an exception that is not an
  instance of \<open>Exception\<close> (\<open>AgentRaisesBase\<close>, with the name of its class: a
  cancellation arriving while the run is awaited raises \<open>asyncio.CancelledError\<close>), or
  ends with \<open>agent_run.result\<close>, which may be \<open>None\<close>.
\<close>

record RunUsage =
  run_request_tokens :: "int option"
  run_response_tokens :: "int option"
  run_total_tokens :: "int option"

record AgentRunResult =
  data :: string
  usage :: RunUsage

datatype agent_outcome =
    AgentRaises string
  | AgentRaisesBase string
  | AgentResult "AgentRunResult option"

type_synonym agent = "string \<Rightarrow> ModelMessage list \<Rightarrow> VaultDependencies \<Rightarrow> agent_outcome"

text \<open>
  Modelled from the spec: FastAPI's \<open>HTTPBearer\<close> security scheme is not part of the
  repository's sources. The specification (and the repository's route test) say that a
  request without an Authorization header is answered with 403; otherwise the scheme hands
  the bearer credential on. The argument is the presented credential, \<open>None\<close> when the
  header is missing.
\<close>

definition HTTPBearer :: "string option \<Rightarrow> error + string" where
  "HTTPBearer authorization =
     (case authorization of
        None \<Rightarrow> Inl (HTTPException 403 ''Not authenticated'')
      | Some credentials \<Rightarrow> Inr credentials)"

text \<open>
  \<^verbatim>\<open>
  if credentials.credentials != settings.api_key:
      raise HTTPException(status_code=status.HTTP_401_UNAUTHORIZED, detail="Invalid API key")
  return credentials
  \<close>
\<close>

definition verify_api_key :: "Settings \<Rightarrow> string \<Rightarrow> error + string" where
  "verify_api_key settings credentials =
     (if credentials \<noteq> api_key settings
      then Inl (HTTPException 401 ''Invalid API key'')
      else Inr credentials)"

definition log_opt_int :: "int option \<Rightarrow> logval" where
  "log_opt_int n = (case n of None \<Rightarrow> LNone | Some k \<Rightarrow> LInt k)"

text \<open>
  The handler returns the events it caused, in order, and either the exception it raised or
  the response. The \<open>duration_seconds\<close> field of the last log record (a difference of
  two wall-clock readings) is left out of the record. The agent run sits in
  \<open>try: ... except Exception as e:\<close>, so an exception that is not an instance of
  \<open>Exception\<close> leaves the handler as it is, with nothing logged.
\<close>

definition chat_completions ::
  "Settings \<Rightarrow> agent \<Rightarrow> Env \<Rightarrow> ChatCompletionRequest
     \<Rightarrow> event list \<times> (error + ChatCompletionResponse)" where
  "chat_completions settings vault_agent env request =
     (let received =
            Log ''info'' ''chat.completions.request_received''
              [(''model'', LStr (model request)),
               (''message_count'', LInt (int (length (messages request)))),
               (''stream'', LBool (stream request))]
      in
      if stream request then
        ([received],
         Inl (HTTPException 400
           ''Streaming not yet supported. Set stream to false in Copilot settings or enable CORS bypass.''))
      else
        (case openai_messages_to_pydantic (messages request) of
           (adapter_events, converted) \<Rightarrow>
             (let entered = [received, AdapterCall (messages request)] @ adapter_events in
              case converted of
                Inl e \<Rightarrow>
                  (case e of
                     ValueError detail \<Rightarrow> (entered, Inl (HTTPException 400 detail))
                   | TypeError detail \<Rightarrow> (entered, Inl e)
                   | HTTPException code detail \<Rightarrow> (entered, Inl e)
                   | BaseException name \<Rightarrow> (entered, Inl e))
              | Inr (user_prompt, message_history) \<Rightarrow>
                  (let deps = \<lparr> vault_path = obsidian_vault_path settings \<rparr>;
                       started =
                         Log ''info'' ''chat.completions.agent_run_started''
                           [(''user_prompt_length'', LInt (int (length user_prompt))),
                            (''history_length'', LInt (int (length message_history)))];
                       invoked = entered @ [started, AgentCall user_prompt message_history deps]
                   in
                   case vault_agent user_prompt message_history deps of
                     AgentRaises e \<Rightarrow>
                       (invoked @
                          [Log ''error'' ''chat.completions.request_failed''
                             [(''error'', LStr e), (''exc_info'', LBool True)]],
                        Inl (HTTPException 500
                          ''Agent execution failed. Check server logs for details.''))
                   | AgentRaisesBase name \<Rightarrow> (invoked, Inl (BaseException name))
                   | AgentResult None \<Rightarrow>
                       (invoked, Inl (HTTPException 500 ''Agent returned no result.''))
                   | AgentResult (Some result) \<Rightarrow>
                       (invoked @
                          [Log ''info'' ''chat.completions.response_completed''
                             [(''total_tokens'', log_opt_int (run_total_tokens (usage result)))]],
                        Inr (build_chat_response env (data result) (model request)
                               (run_request_tokens (usage result))
                               (run_response_tokens (usage result))
                               (run_total_tokens (usage result))))))))"

text \<open>
  The route as FastAPI runs it: the security dependencies first
  (\<open>dependencies=[Security(verify_api_key)]\<close>, itself depending on \<open>HTTPBearer\<close>),
  the handler only when they have returned.
\<close>

definition endpoint ::
  "Settings \<Rightarrow> agent \<Rightarrow> Env \<Rightarrow> string option \<Rightarrow> ChatCompletionRequest
     \<Rightarrow> event list \<times> (error + ChatCompletionResponse)" where
  "endpoint settings vault_agent env authorization request =
     (case HTTPBearer authorization of
        Inl e \<Rightarrow> ([], Inl e)
      | Inr credentials \<Rightarrow>
          (case verify_api_key settings credentials of
             Inl e \<Rightarrow> ([], Inl e)
           | Inr _ \<Rightarrow> chat_completions settings vault_agent env request))"

text \<open>What a trace says about the adapter and the agent.\<close>

fun is_adapter_call :: "event \<Rightarrow> bool" where
  "is_adapter_call (AdapterCall _) = True"
| "is_adapter_call _ = False"

fun is_agent_call :: "event \<Rightarrow> bool" where
  "is_agent_call (AgentCall _ _ _) = True"
| "is_agent_call _ = False"

definition adapter_invoked :: "event list \<Rightarrow> bool" where
  "adapter_invoked tr = (filter is_adapter_call tr \<noteq> [])"

definition agent_invoked :: "event list \<Rightarrow> bool" where
  "agent_invoked tr = (filter is_agent_call tr \<noteq> [])"

definition agent_calls :: "event list \<Rightarrow> event list" where
  "agent_calls tr = filter is_agent_call tr"

section \<open>Domain exceptions (app/core/exceptions.py)\<close>

text \<open>The four classes of the hierarchy, and the base class of each.\<close>

datatype exc_class = PaddyError | VaultError | NoteNotFoundError | VaultPathError

fun base_class :: "exc_class \<Rightarrow> exc_class option" where
  "base_class PaddyError = None"
| "base_class VaultError = Some PaddyError"
| "base_class NoteNotFoundError = Some VaultError"
| "base_class VaultPathError = Some VaultError"

fun class_name :: "exc_class \<Rightarrow> string" where
  "class_name PaddyError = ''PaddyError''"
| "class_name VaultError = ''VaultError''"
| "class_name NoteNotFoundError = ''NoteNotFoundError''"
| "class_name VaultPathError = ''VaultPathError''"

text \<open>
  \<open>issubclass c d\<close>: \<open>d\<close> is reached from \<open>c\<close> by following base classes (the
  hierarchy is at most three classes deep).
\<close>

definition issubclass :: "exc_class \<Rightarrow> exc_class \<Rightarrow> bool" where
  "issubclass c d =
     (c = d \<or> base_class c = Some d \<or>
      (case base_class c of None \<Rightarrow> False | Some b \<Rightarrow> base_class b = Some d))"

text \<open>An exception object: its class (\<open>type(exc)\<close>) and its message (\<open>str(exc)\<close>).\<close>

record exn =
  exc_type :: exc_class
  exc_message :: string

definition isinstance :: "exn \<Rightarrow> exc_class \<Rightarrow> bool" where
  "isinstance exc c = issubclass (exc_type exc) c"

record Request =
  url_path :: string
  http_method :: string

record JSONResponse =
  status_code :: nat
  body :: "(string \<times> string) list"

text \<open>
  \<^verbatim>\<open>
  logger.error("vault.exception_raised", error_type=type(exc).__name__,
               error_message=str(exc), path=request.url.path, method=request.method,
               exc_info=True)
  status_code = status.HTTP_500_INTERNAL_SERVER_ERROR
  if isinstance(exc, NoteNotFoundError):
      status_code = status.HTTP_404_NOT_FOUND
  elif isinstance(exc, VaultPathError):
      status_code = status.HTTP_400_BAD_REQUEST
  return JSONResponse(status_code=status_code,
                      content={"error": str(exc), "type": type(exc).__name__})
  \<close>
  The result is the list of events so far, the log record first, and the response.
\<close>

definition paddy_exception_handler :: "Request \<Rightarrow> exn \<Rightarrow> event list \<times> JSONResponse" where
  "paddy_exception_handler request exc =
     (let logged =
            [Log ''error'' ''vault.exception_raised''
               [(''error_type'', LStr (class_name (exc_type exc))),
                (''error_message'', LStr (exc_message exc)),
                (''path'', LStr (url_path request)),
                (''method'', LStr (http_method request)),
                (''exc_info'', LBool True)]];
          code = (if isinstance exc NoteNotFoundError then 404
                  else if isinstance exc VaultPathError then 400
                  else 500)
      in (logged,
          \<lparr> status_code = code,
            body = [(''error'', exc_message exc), (''type'', class_name (exc_type exc))] \<rparr>))"

section \<open>Notions used in the statements\<close>

definition no_user :: "ChatMessage list \<Rightarrow> bool" where
  "no_user msgs = (filter (\<lambda>x. role x = User) msgs = [])"

text \<open>The hexadecimal digit of a UUID at position \<open>i\<close>, counted from the least significant.\<close>

definition nibble :: "128 word \<Rightarrow> nat \<Rightarrow> 128 word" where
  "nibble u i = drop_bit (4 * i) u AND 15"

text \<open>The first log record of the handler.\<close>

definition received_event :: "ChatCompletionRequest \<Rightarrow> event" where
  "received_event request =
     Log ''info'' ''chat.completions.request_received''
       [(''model'', LStr (model request)),
        (''message_count'', LInt (int (length (messages request)))),
        (''stream'', LBool (stream request))]"

text \<open>The events of the handler up to and including the call of the agent.\<close>

definition invoked_events ::
  "Settings \<Rightarrow> ChatCompletionRequest \<Rightarrow> event list \<Rightarrow> string \<Rightarrow> ModelMessage list
     \<Rightarrow> event list" where
  "invoked_events settings request adapter_events p h =
     [received_event request, AdapterCall (messages request)] @ adapter_events @
     [Log ''info'' ''chat.completions.agent_run_started''
        [(''user_prompt_length'', LInt (int (length p))),
         (''history_length'', LInt (int (length h)))],
      AgentCall p h \<lparr> vault_path = obsidian_vault_path settings \<rparr>]"

section \<open>Text normalisation: properties\<close>

lemma str_join_truthy:
  "\<forall>p \<in> set ps. truthy_str (part_text p) \<Longrightarrow>
     str_join (map part_text ps) = Inr (concat (map text_of_part ps))"
proof (induction ps)
  case Nil
  show ?case by simp
next
  case (Cons p ps)
  then obtain s where "part_text p = Some s" by (cases "part_text p") auto
  with Cons show ?case by (simp add: text_of_part_def)
qed

lemma concat_drop_falsy:
  "concat (map text_of_part (filter (\<lambda>part. P part \<and> truthy_str (part_text part)) ps))
     = concat (map text_of_part (filter P ps))"
proof (induction ps)
  case Nil
  show ?case by simp
next
  case (Cons p ps)
  show ?case
  proof (cases "part_text p")
    case None
    with Cons show ?thesis by (simp add: text_of_part_def)
  next
    case (Some s)
    with Cons show ?thesis by (cases "s = []") (simp_all add: text_of_part_def)
  qed
qed

lemma text_content_normalized: "text_content msg = Inr (normalized_text msg)"
proof (cases "content msg")
  case (Str s)
  then show ?thesis by (simp add: normalized_text_def)
next
  case (Parts ps)
  let ?keep = "\<lambda>part. part_type part = ''text'' \<and> truthy_str (part_text part)"
  have "\<forall>p \<in> set (filter ?keep ps). truthy_str (part_text p)" by simp
  from str_join_truthy [OF this]
  have "str_join (map part_text (filter ?keep ps))
          = Inr (concat (map text_of_part (filter ?keep ps)))" .
  with Parts show ?thesis
    by (simp add: normalized_text_def concat_drop_falsy)
qed

declare text_content.simps [simp del]

section \<open>Message adapter: the two loops\<close>

lemma scan_messages_found:
  "scan_messages xs (Some p, k, prior)
     = Inr (Some p, k + count_system xs, prior @ filter not_system xs)"
proof (induction xs arbitrary: k prior)
  case Nil
  show ?case by (simp add: count_system_def)
next
  case (Cons x xs)
  show ?case by (simp add: Cons.IH count_system_def not_system_def)
qed

lemma scan_messages_no_user:
  "\<forall>x \<in> set xs. role x \<noteq> User \<Longrightarrow>
   scan_messages xs (None, k, prior)
     = Inr (None, k + count_system xs, prior @ filter not_system xs)"
proof (induction xs arbitrary: k prior)
  case Nil
  show ?case by (simp add: count_system_def)
next
  case (Cons x xs)
  then show ?case by (simp add: count_system_def not_system_def)
qed

lemma scan_messages_first_user:
  assumes "\<forall>x \<in> set a. role x \<noteq> User" and "role m = User"
  shows "scan_messages (a @ m # b) (None, k, prior)
     = Inr (Some (normalized_text m), k + count_system (a @ b),
            prior @ filter not_system (a @ b))"
  using assms(1)
proof (induction a arbitrary: k prior)
  case Nil
  show ?case
    by (simp add: assms(2) text_content_normalized scan_messages_found)
next
  case (Cons x a)
  then show ?case by (simp add: count_system_def not_system_def)
qed

lemma build_history_eq:
  "build_history xs h = Inr (h @ map history_record (filter not_system xs))"
proof (induction xs arbitrary: h)
  case Nil
  show ?case by simp
next
  case (Cons x xs)
  show ?case
    by (cases "role x") (simp_all add: Cons.IH text_content_normalized history_record_def not_system_def)
qed

lemma adapter_with_user:
  assumes "role m = User" and "\<forall>x \<in> set post. role x \<noteq> User"
  shows "snd (openai_messages_to_pydantic (pre @ m # post))
           = Inr (normalized_text m, map history_record (filter not_system (pre @ post)))"
proof -
  have rv: "rev (pre @ m # post) = rev post @ m # rev pre" by simp
  have nu: "\<forall>x \<in> set (rev post). role x \<noteq> User" using assms(2) by simp
  have sc: "scan_messages (rev (pre @ m # post)) (None, 0, [])
          = Inr (Some (normalized_text m), 0 + count_system (rev post @ rev pre),
                 [] @ filter not_system (rev post @ rev pre))"
    unfolding rv by (rule scan_messages_first_user [OF nu assms(1)])
  have rf: "rev (filter not_system (rev post @ rev pre)) = filter not_system (pre @ post)"
    by (simp add: rev_filter)
  have bh: "build_history (rev (filter not_system (rev post @ rev pre))) []
          = Inr (map history_record (filter not_system (pre @ post)))"
    unfolding rf by (simp add: build_history_eq)
  from assms(1) have ne: "pre @ m # post \<noteq> []" by simp
  show ?thesis
    unfolding openai_messages_to_pydantic_def sc using bh ne by simp
qed

lemma adapter_without_user:
  assumes "msgs \<noteq> []" and "\<forall>x \<in> set msgs. role x \<noteq> User"
  shows "openai_messages_to_pydantic msgs
           = ([], Inl (ValueError ''Messages must contain at least one user message.''))"
proof -
  have "\<forall>x \<in> set (rev msgs). role x \<noteq> User" using assms(2) by simp
  from scan_messages_no_user [OF this]
  show ?thesis using assms(1) by (simp add: openai_messages_to_pydantic_def)
qed

lemma split_last_user:
  assumes "\<exists>x \<in> set msgs. role x = User"
  shows "\<exists>pre m post. msgs = pre @ m # post \<and> role m = User \<and> (\<forall>x \<in> set post. role x \<noteq> User)"
proof -
  from assms obtain pre m post where
    "msgs = pre @ m # post" "role m = User" "\<forall>x \<in> set post. \<not> role x = User"
    using split_list_last_prop [of msgs "\<lambda>x. role x = User"] by blast
  then show ?thesis by blast
qed

lemma adapter_empty:
  "openai_messages_to_pydantic [] = ([], Inl (ValueError ''Messages array must not be empty.''))"
  by (simp add: openai_messages_to_pydantic_def)

lemma adapter_result_cases:
  "(msgs = [] \<and> snd (openai_messages_to_pydantic msgs)
        = Inl (ValueError ''Messages array must not be empty.'')) \<or>
   (msgs \<noteq> [] \<and> (\<forall>x \<in> set msgs. role x \<noteq> User) \<and>
      snd (openai_messages_to_pydantic msgs)
        = Inl (ValueError ''Messages must contain at least one user message.'')) \<or>
   ((\<exists>x \<in> set msgs. role x = User) \<and>
      (\<exists>p h. snd (openai_messages_to_pydantic msgs) = Inr (p, h)))"
proof (cases "msgs = []")
  case True
  then show ?thesis by (simp add: adapter_empty)
next
  case False
  show ?thesis
  proof (cases "\<exists>x \<in> set msgs. role x = User")
    case True
    from split_last_user [OF True] obtain pre m post where
      "msgs = pre @ m # post" "role m = User" "\<forall>x \<in> set post. role x \<noteq> User" by blast
    with adapter_with_user [of m post pre] True show ?thesis by simp
  next
    case nouser: False
    then have "\<forall>x \<in> set msgs. role x \<noteq> User" by blast
    with adapter_without_user [OF False this] False show ?thesis by simp
  qed
qed

lemma no_user_iff: "no_user msgs \<longleftrightarrow> (\<forall>x \<in> set msgs. role x \<noteq> User)"
  by (simp add: no_user_def filter_empty_conv)

lemma adapter_error_iff:
  "(\<exists>e. snd (openai_messages_to_pydantic msgs) = Inl e) \<longleftrightarrow> (msgs = [] \<or> no_user msgs)"
  using adapter_result_cases [of msgs] by (auto simp: no_user_iff)

lemma adapter_error_is_ValueError:
  "snd (openai_messages_to_pydantic msgs) = Inl e \<Longrightarrow> \<exists>d. e = ValueError d"
  using adapter_result_cases [of msgs] by auto

section \<open>Route handler: one equation per path\<close>

lemma chat_completions_adapter_error:
  assumes "\<not> stream request"
    and "snd (openai_messages_to_pydantic (messages request)) = Inl (ValueError d)"
  shows "snd (chat_completions settings ag env request) = Inl (HTTPException 400 d)"
proof -
  obtain evs where "openai_messages_to_pydantic (messages request) = (evs, Inl (ValueError d))"
    using assms(2) by (cases "openai_messages_to_pydantic (messages request)") simp
  with assms(1) show ?thesis by (simp add: chat_completions_def Let_def)
qed

lemma chat_completions_agent_raises:
  assumes "\<not> stream request"
    and "openai_messages_to_pydantic (messages request) = (evs, Inr (p, h))"
    and "ag p h \<lparr> vault_path = obsidian_vault_path settings \<rparr> = AgentRaises e"
  shows "chat_completions settings ag env request =
           (invoked_events settings request evs p h @
              [Log ''error'' ''chat.completions.request_failed''
                 [(''error'', LStr e), (''exc_info'', LBool True)]],
            Inl (HTTPException 500 ''Agent execution failed. Check server logs for details.''))"
  using assms by (simp add: chat_completions_def Let_def invoked_events_def received_event_def)

lemma chat_completions_agent_raises_base:
  assumes "\<not> stream request"
    and "openai_messages_to_pydantic (messages request) = (evs, Inr (p, h))"
    and "ag p h \<lparr> vault_path = obsidian_vault_path settings \<rparr> = AgentRaisesBase name"
  shows "chat_completions settings ag env request =
           (invoked_events settings request evs p h, Inl (BaseException name))"
  using assms by (simp add: chat_completions_def Let_def invoked_events_def received_event_def)

lemma chat_completions_agent_none:
  assumes "\<not> stream request"
    and "openai_messages_to_pydantic (messages request) = (evs, Inr (p, h))"
    and "ag p h \<lparr> vault_path = obsidian_vault_path settings \<rparr> = AgentResult None"
  shows "chat_completions settings ag env request =
           (invoked_events settings request evs p h,
            Inl (HTTPException 500 ''Agent returned no result.''))"
  using assms by (simp add: chat_completions_def Let_def invoked_events_def received_event_def)

lemma chat_completions_agent_result:
  assumes "\<not> stream request"
    and "openai_messages_to_pydantic (messages request) = (evs, Inr (p, h))"
    and "ag p h \<lparr> vault_path = obsidian_vault_path settings \<rparr> = AgentResult (Some result)"
  shows "chat_completions settings ag env request =
           (invoked_events settings request evs p h @
              [Log ''info'' ''chat.completions.response_completed''
                 [(''total_tokens'', log_opt_int (run_total_tokens (usage result)))]],
            Inr (build_chat_response env (data result) (model request)
                   (run_request_tokens (usage result))
                   (run_response_tokens (usage result))
                   (run_total_tokens (usage result))))"
  using assms by (simp add: chat_completions_def Let_def invoked_events_def received_event_def)

lemma chat_completions_adapter_ok:
  assumes "\<not> stream request"
    and "snd (openai_messages_to_pydantic (messages request)) = Inr (p, h)"
  shows "\<nexists>d. snd (chat_completions settings ag env request) = Inl (HTTPException 400 d)"
proof -
  obtain evs where ad: "openai_messages_to_pydantic (messages request) = (evs, Inr (p, h))"
    using assms(2) by (cases "openai_messages_to_pydantic (messages request)") simp
  show ?thesis
  proof (cases "ag p h \<lparr> vault_path = obsidian_vault_path settings \<rparr>")
    case (AgentRaises e)
    with assms(1) ad show ?thesis by (simp add: chat_completions_agent_raises)
  next
    case (AgentRaisesBase name)
    with assms(1) ad show ?thesis by (simp add: chat_completions_agent_raises_base)
  next
    case (AgentResult r)
    show ?thesis
    proof (cases r)
      case None
      with AgentResult assms(1) ad show ?thesis by (simp add: chat_completions_agent_none)
    next
      case (Some result)
      with AgentResult assms(1) ad show ?thesis by (simp add: chat_completions_agent_result)
    qed
  qed
qed

lemma chat_completions_stream:
  "stream request \<Longrightarrow>
   chat_completions settings ag env request =
     ([received_event request],
      Inl (HTTPException 400
        ''Streaming not yet supported. Set stream to false in Copilot settings or enable CORS bypass.''))"
  by (simp add: chat_completions_def received_event_def)

lemma invoked_events_flags:
  "adapter_invoked (invoked_events settings request evs p h @ rest) \<and>
   agent_invoked (invoked_events settings request evs p h @ rest)"
  by (simp add: adapter_invoked_def agent_invoked_def invoked_events_def)

lemma handler_invokes_adapter_and_agent:
  assumes "\<not> stream request"
    and "openai_messages_to_pydantic (messages request) = (evs, Inr (p, h))"
  shows "adapter_invoked (fst (chat_completions settings ag env request)) \<and>
         agent_invoked (fst (chat_completions settings ag env request))"
proof -
  have "\<exists>rest. fst (chat_completions settings ag env request)
          = invoked_events settings request evs p h @ rest"
  proof (cases "ag p h \<lparr> vault_path = obsidian_vault_path settings \<rparr>")
    case (AgentRaises e)
    with assms show ?thesis by (simp add: chat_completions_agent_raises)
  next
    case (AgentRaisesBase name)
    with assms have "fst (chat_completions settings ag env request)
        = invoked_events settings request evs p h @ []"
      by (simp add: chat_completions_agent_raises_base)
    then show ?thesis ..
  next
    case (AgentResult r)
    with assms show ?thesis
      by (cases r) (simp_all add: chat_completions_agent_none chat_completions_agent_result)
  qed
  then obtain rest where
    "fst (chat_completions settings ag env request)
       = invoked_events settings request evs p h @ rest" ..
  then show ?thesis by (simp only: invoked_events_flags)
qed

section \<open>Response builder: the identifier\<close>

lemma fifteen_mask: "(15 :: 128 word) = mask 4"
  by (simp add: mask_eq_exp_minus_1)

lemma nibble_take_bit: "nibble u i = take_bit 4 (drop_bit (4 * i) u)"
  by (simp add: nibble_def fifteen_mask take_bit_eq_mask)

lemma unat_nibble_less: "unat (nibble u i) < 16"
proof -
  have "take_bit 4 (unat (drop_bit (4 * i) u)) < 2 ^ 4"
    by (rule take_bit_nat_less_exp)
  then show ?thesis by (simp add: nibble_take_bit unsigned_take_bit_eq)
qed

lemma hex_digit_in_alphabet: "n < 16 \<Longrightarrow> hex_digit n \<in> set ''0123456789abcdef''"
  unfolding hex_digit_def by (rule nth_mem) simp

lemma hex_digit_inj: 
  assumes "m < 16" and "n < 16"
  shows "hex_digit m = hex_digit n \<longleftrightarrow> m = n"
proof -
  have "distinct ''0123456789abcdef''" by simp
  then show ?thesis
    unfolding hex_digit_def using assms by (intro nth_eq_iff_index_eq) simp_all
qed

lemma uuid_hex_nibbles: "uuid_hex u = map (\<lambda>i. hex_digit (unat (nibble u i))) (rev [0..<32])"
  by (simp add: uuid_hex_def nibble_def)

lemma length_uuid_hex: "length (uuid_hex u) = 32"
  by (simp add: uuid_hex_def)

lemma set_uuid_hex: "set (uuid_hex u) \<subseteq> set ''0123456789abcdef''"
proof
  fix c assume "c \<in> set (uuid_hex u)"
  then obtain i where "c = hex_digit (unat (nibble u i))"
    unfolding uuid_hex_nibbles by auto
  with hex_digit_in_alphabet [OF unat_nibble_less] show "c \<in> set ''0123456789abcdef''"
    by simp
qed

lemma take_29_uuid_hex:
  "take 29 (uuid_hex u) = map (\<lambda>i. hex_digit (unat (nibble u i))) (rev [3..<32])"
proof -
  have "take 29 (rev [0..<32]) = rev (drop 3 [0..<32])"
    by (simp add: take_rev)
  also have "\<dots> = rev [3..<32]" by (simp only: drop_upt) simp
  finally show ?thesis by (simp only: uuid_hex_nibbles take_map)
qed

lemma nibble_of_prefix:
  "3 \<le> i \<Longrightarrow> nibble u i = take_bit 4 (drop_bit (4 * i - 12) (drop_bit 12 u))"
  by (simp add: nibble_take_bit)

lemma prefix_eq_iff_nibbles:
  "drop_bit 12 u = drop_bit 12 v \<longleftrightarrow> (\<forall>i \<in> {3..<32}. nibble u i = nibble v i)"
proof
  assume "drop_bit 12 u = drop_bit 12 v"
  then show "\<forall>i \<in> {3..<32}. nibble u i = nibble v i"
    by (simp add: nibble_of_prefix)
next
  assume nib: "\<forall>i \<in> {3..<32}. nibble u i = nibble v i"
  show "drop_bit 12 u = drop_bit 12 v"
  proof (rule bit_word_eqI)
    fix n assume "n < LENGTH(128)"
    show "bit (drop_bit 12 u) n = bit (drop_bit 12 v) n"
    proof (cases "n + 12 < 128")
      case True
      define i where "i = (n + 12) div 4"
      define j where "j = (n + 12) mod 4"
      have i: "i \<in> {3..<32}" using True unfolding i_def atLeastLessThan_iff by presburger
      have j: "j < 4" by (simp add: j_def)
      have n: "4 * i + j = n + 12" by (simp add: i_def j_def)
      have b: "bit (nibble w i) j = bit w (n + 12)" for w :: "128 word"
        using j n by (simp add: nibble_take_bit bit_take_bit_iff bit_drop_bit_eq add.commute)
      from nib i have "nibble u i = nibble v i" by blast
      then have "bit (nibble u i) j = bit (nibble v i) j" by simp
      then have "bit u (n + 12) = bit v (n + 12)" by (simp only: b)
      then show ?thesis by (simp add: bit_drop_bit_eq add.commute)
    next
      case False
      then have "\<not> bit w (12 + n)" for w :: "128 word"
        by (auto dest: bit_imp_le_length)
      then show ?thesis by (simp add: bit_drop_bit_eq)
    qed
  qed
qed

lemma take_29_uuid_hex_eq_iff:
  "take 29 (uuid_hex u) = take 29 (uuid_hex v) \<longleftrightarrow> drop_bit 12 u = drop_bit 12 v"
proof -
  have "take 29 (uuid_hex u) = take 29 (uuid_hex v)
          \<longleftrightarrow> (\<forall>i \<in> set (rev [3..<32]). hex_digit (unat (nibble u i)) = hex_digit (unat (nibble v i)))"
    unfolding take_29_uuid_hex by (rule map_eq_conv)
  also have "\<dots> \<longleftrightarrow> (\<forall>i \<in> {3..<32}. nibble u i = nibble v i)"
    by (simp only: set_rev set_upt hex_digit_inj [OF unat_nibble_less unat_nibble_less]
        word_unat_eq_iff [symmetric])
  finally show ?thesis by (simp only: prefix_eq_iff_nibbles)
qed


lemma cr_id_build_chat_response:
  "cr_id (build_chat_response env output m rt rs tt) = ''chatcmpl-'' @ take 29 (uuid_hex (uuid4 env))"
  by (simp add: build_chat_response_def)

lemma or_zero_case: "or_zero n = (case n of None \<Rightarrow> 0 | Some k \<Rightarrow> k)"
  by (cases n) simp_all

section \<open>Claims on the text normalisation\<close>

text \<open>
  C8. For every message, \<open>text_content\<close> returns the content unchanged when it is a plain
  string; when the content is a list of parts it returns the concatenation, in list order, of
  the texts of exactly the parts whose type is \<open>"text"\<close>; every other part is dropped.
\<close>

theorem text_content_spec:
  "text_content \<lparr> role = r, content = Str s \<rparr> = Inr s \<and>
   text_content \<lparr> role = r, content = Parts ps \<rparr>
     = Inr (concat (map text_of_part (filter (\<lambda>part. part_type part = ''text'') ps)))"
  by (simp add: text_content_normalized normalized_text_def)

theorem text_content_spec_witness:
  "text_content \<lparr> role = User, content = Str ''Hello world'' \<rparr> = Inr ''Hello world'' \<and>
   text_content \<lparr> role = User, content = Parts
       [\<lparr> part_type = ''text'', part_text = Some ''Describe '', part_image_url = None \<rparr>,
        \<lparr> part_type = ''image_url'', part_text = Some ''dropped'',
          part_image_url = Some [(''url'', JStr ''data:...'')] \<rparr>,
        \<lparr> part_type = ''text'', part_text = Some ''this image'', part_image_url = None \<rparr>] \<rparr>
     = Inr ''Describe this image''"
  using text_content_spec [of User "''Hello world''"
      "[\<lparr> part_type = ''text'', part_text = Some ''Describe '', part_image_url = None \<rparr>,
        \<lparr> part_type = ''image_url'', part_text = Some ''dropped'',
          part_image_url = Some [(''url'', JStr ''data:...'')] \<rparr>,
        \<lparr> part_type = ''text'', part_text = Some ''this image'', part_image_url = None \<rparr>]"]
  by (simp add: text_of_part_def)

text \<open>
  C9. \<open>text_content\<close> never fails: for every content value it returns a string. A part of
  type \<open>"text"\<close> whose text is \<open>None\<close> or empty contributes nothing, so the message
  normalises as it does without that part.
\<close>

theorem text_content_total:
  "(\<exists>s. text_content msg = Inr s) \<and>
   (part_type p = ''text'' \<and> (part_text p = None \<or> part_text p = Some []) \<longrightarrow>
      text_content \<lparr> role = r, content = Parts (ps @ p # qs) \<rparr>
        = text_content \<lparr> role = r, content = Parts (ps @ qs) \<rparr>)"
proof -
  have "text_of_part p = []" if "part_text p = None \<or> part_text p = Some []"
    using that by (auto simp: text_of_part_def)
  then show ?thesis
    by (auto simp: text_content_normalized normalized_text_def)
qed

theorem text_content_total_witness:
  "part_type \<lparr> part_type = ''text'', part_text = None, part_image_url = None \<rparr> = ''text'' \<and>
   text_content \<lparr> role = User, content = Parts
       [\<lparr> part_type = ''text'', part_text = Some ''a'', part_image_url = None \<rparr>,
        \<lparr> part_type = ''text'', part_text = None, part_image_url = None \<rparr>,
        \<lparr> part_type = ''text'', part_text = Some ''b'', part_image_url = None \<rparr>] \<rparr>
     = Inr ''ab''"
  using text_content_total
    [of "\<lparr> role = User, content = Str [] \<rparr>"
        "\<lparr> part_type = ''text'', part_text = None, part_image_url = None \<rparr>"
        User
        "[\<lparr> part_type = ''text'', part_text = Some ''a'', part_image_url = None \<rparr>]"
        "[\<lparr> part_type = ''text'', part_text = Some ''b'', part_image_url = None \<rparr>]"]
  by (simp add: text_content.simps)

section \<open>Claims on the message adapter\<close>

text \<open>
  C1. When the message list contains a user message, let \<open>m\<close> be the last one, \<open>pre\<close> the
  messages before it and \<open>post\<close> the messages after it. The adapter returns the normalised
  text of \<open>m\<close> as the prompt, and as the history the messages of \<open>pre\<close> and \<open>post\<close> that are
  not system messages, in their original order, a user message as a request record and an
  assistant message as a response record. For a single user message the history is empty.
\<close>

theorem adapter_prompt_and_history:
  assumes "role m = User" and "\<forall>x \<in> set post. role x \<noteq> User"
  shows "text_content m = Inr (normalized_text m) \<and>
         snd (openai_messages_to_pydantic (pre @ m # post))
           = Inr (normalized_text m, map history_record (filter not_system (pre @ post))) \<and>
         snd (openai_messages_to_pydantic [m]) = Inr (normalized_text m, [])"
proof -
  have "snd (openai_messages_to_pydantic ([] @ m # []))
          = Inr (normalized_text m, map history_record (filter not_system ([] @ [])))"
    by (rule adapter_with_user) (simp_all add: assms(1))
  then have "snd (openai_messages_to_pydantic [m]) = Inr (normalized_text m, [])" by simp
  with adapter_with_user [OF assms] text_content_normalized show ?thesis by simp
qed

theorem adapter_prompt_and_history_witness:
  "role \<lparr> role = User, content = Str ''Q2'' \<rparr> = User \<and>
   no_user [\<lparr> role = Assistant, content = Str ''A2'' \<rparr>,
            \<lparr> role = System, content = Str ''Late system'' \<rparr>] \<and>
   snd (openai_messages_to_pydantic
     [\<lparr> role = System, content = Str ''System'' \<rparr>,
      \<lparr> role = User, content = Str ''Q1'' \<rparr>,
      \<lparr> role = Assistant, content = Str ''A1'' \<rparr>,
      \<lparr> role = User, content = Str ''Q2'' \<rparr>,
      \<lparr> role = Assistant, content = Str ''A2'' \<rparr>,
      \<lparr> role = System, content = Str ''Late system'' \<rparr>])
     = Inr (''Q2'', [ModelRequest [''Q1''], ModelResponse [''A1''], ModelResponse [''A2'']])"
  using adapter_prompt_and_history
    [of "\<lparr> role = User, content = Str ''Q2'' \<rparr>"
        "[\<lparr> role = Assistant, content = Str ''A2'' \<rparr>,
          \<lparr> role = System, content = Str ''Late system'' \<rparr>]"
        "[\<lparr> role = System, content = Str ''System'' \<rparr>,
          \<lparr> role = User, content = Str ''Q1'' \<rparr>,
          \<lparr> role = Assistant, content = Str ''A1'' \<rparr>]"]
  by (simp add: normalized_text_def history_record_def not_system_def no_user_def)

text \<open>
  C2. The adapter raises a \<open>ValueError\<close> exactly when the message list is empty or holds no
  user message, and returns a prompt and a history in every other case. For a request that
  does not ask for streaming, the handler answers 400 exactly in these cases, with the
  adapter's message as the detail.
\<close>

theorem adapter_raises_iff:
  "((\<exists>d. snd (openai_messages_to_pydantic msgs) = Inl (ValueError d))
      \<longleftrightarrow> (msgs = [] \<or> no_user msgs)) \<and>
   ((\<exists>p h. snd (openai_messages_to_pydantic msgs) = Inr (p, h))
      \<longleftrightarrow> \<not> (msgs = [] \<or> no_user msgs)) \<and>
   (\<not> stream request \<longrightarrow>
      ((\<exists>d. snd (chat_completions settings ag env request) = Inl (HTTPException 400 d))
         \<longleftrightarrow> (messages request = [] \<or> no_user (messages request))) \<and>
      (\<forall>d. snd (openai_messages_to_pydantic (messages request)) = Inl (ValueError d) \<longrightarrow>
         snd (chat_completions settings ag env request) = Inl (HTTPException 400 d)))"
proof -
  have a: "(\<exists>d. snd (openai_messages_to_pydantic ms) = Inl (ValueError d))
             \<longleftrightarrow> (ms = [] \<or> no_user ms)" for ms
    using adapter_error_iff [of ms] adapter_error_is_ValueError [of ms] by blast
  have b: "(\<exists>p h. snd (openai_messages_to_pydantic ms) = Inr (p, h))
             \<longleftrightarrow> \<not> (ms = [] \<or> no_user ms)" for ms
    using adapter_error_iff [of ms]
    by (cases "snd (openai_messages_to_pydantic ms)") auto
  have c: "(\<exists>d. snd (chat_completions settings ag env request) = Inl (HTTPException 400 d))
             \<longleftrightarrow> (messages request = [] \<or> no_user (messages request))"
    if ns: "\<not> stream request"
  proof
    assume l: "\<exists>d. snd (chat_completions settings ag env request) = Inl (HTTPException 400 d)"
    show "messages request = [] \<or> no_user (messages request)"
    proof (rule ccontr)
      assume "\<not> (messages request = [] \<or> no_user (messages request))"
      with b [of "messages request"] obtain p h where
        "snd (openai_messages_to_pydantic (messages request)) = Inr (p, h)" by blast
      from chat_completions_adapter_ok [OF ns this] l show False by blast
    qed
  next
    assume "messages request = [] \<or> no_user (messages request)"
    with a [of "messages request"] obtain d where
      "snd (openai_messages_to_pydantic (messages request)) = Inl (ValueError d)" by blast
    from chat_completions_adapter_error [OF ns this]
    show "\<exists>d. snd (chat_completions settings ag env request) = Inl (HTTPException 400 d)"
      by blast
  qed
  from a [of msgs] b [of msgs] c chat_completions_adapter_error show ?thesis by blast
qed

theorem adapter_raises_iff_witness:
  "no_user [\<lparr> role = System, content = Str ''System prompt'' \<rparr>,
            \<lparr> role = Assistant, content = Str ''Previous response'' \<rparr>] \<and>
   (\<exists>d. snd (openai_messages_to_pydantic
        [\<lparr> role = System, content = Str ''System prompt'' \<rparr>,
         \<lparr> role = Assistant, content = Str ''Previous response'' \<rparr>]) = Inl (ValueError d)) \<and>
   \<not> stream \<lparr> model = ''paddy'', messages = [], stream = False, temperature = None,
              max_tokens = None, top_p = None, frequency_penalty = None \<rparr> \<and>
   (\<exists>d. snd (chat_completions
        \<lparr> api_key = ''test-secret-key'', obsidian_vault_path = ''/vault'' \<rparr>
        (\<lambda>p h d. AgentResult None)
        \<lparr> uuid4 = 0, utcnow_timestamp = 1700000000 \<rparr>
        \<lparr> model = ''paddy'', messages = [], stream = False, temperature = None,
          max_tokens = None, top_p = None, frequency_penalty = None \<rparr>)
      = Inl (HTTPException 400 d))"
  using adapter_raises_iff
    [of "[\<lparr> role = System, content = Str ''System prompt'' \<rparr>,
          \<lparr> role = Assistant, content = Str ''Previous response'' \<rparr>]"
        "\<lparr> model = ''paddy'', messages = [], stream = False, temperature = None,
          max_tokens = None, top_p = None, frequency_penalty = None \<rparr>"
        "\<lparr> api_key = ''test-secret-key'', obsidian_vault_path = ''/vault'' \<rparr>"
        "\<lambda>p h d. AgentResult None"
        "\<lparr> uuid4 = 0, utcnow_timestamp = 1700000000 \<rparr>"]
  by (simp add: no_user_def)

section \<open>Claims on the route handler\<close>

text \<open>
  C4. A bearer credential different from the configured \<open>api_key\<close> is refused with 401, a
  missing Authorization header with 403, and a request with \<open>stream = true\<close> is refused by
  the handler with 400. In each case nothing else happens: the 401 and the 403 are raised
  before the handler is entered, and the streaming request ends before the adapter or the
  agent is called.
\<close>

theorem auth_and_streaming_short_circuit:
  "(credentials \<noteq> api_key settings \<longrightarrow>
      verify_api_key settings credentials = Inl (HTTPException 401 ''Invalid API key'') \<and>
      endpoint settings ag env (Some credentials) request
        = ([], Inl (HTTPException 401 ''Invalid API key''))) \<and>
   (\<exists>d. endpoint settings ag env None request = ([], Inl (HTTPException 403 d))) \<and>
   (stream request \<longrightarrow>
      (\<exists>d. snd (chat_completions settings ag env request) = Inl (HTTPException 400 d)) \<and>
      \<not> adapter_invoked (fst (chat_completions settings ag env request)) \<and>
      \<not> agent_invoked (fst (chat_completions settings ag env request)) \<and>
      endpoint settings ag env (Some (api_key settings)) request
        = chat_completions settings ag env request) \<and>
   \<not> adapter_invoked [] \<and> \<not> agent_invoked []"
  by (simp add: chat_completions_stream endpoint_def HTTPBearer_def verify_api_key_def
      adapter_invoked_def agent_invoked_def received_event_def)

theorem auth_and_streaming_short_circuit_witness:
  "''wrong-key'' \<noteq> api_key \<lparr> api_key = ''test-secret-key'', obsidian_vault_path = ''/vault'' \<rparr> \<and>
   endpoint \<lparr> api_key = ''test-secret-key'', obsidian_vault_path = ''/vault'' \<rparr> (\<lambda>p h d. AgentResult None)
       \<lparr> uuid4 = 0, utcnow_timestamp = 1700000000 \<rparr> (Some ''wrong-key'')
       \<lparr> model = ''paddy'', messages = [\<lparr> role = User, content = Str ''Hello'' \<rparr>],
          stream = True, temperature = None, max_tokens = None, top_p = None,
          frequency_penalty = None \<rparr>
     = ([], Inl (HTTPException 401 ''Invalid API key'')) \<and>
   stream \<lparr> model = ''paddy'', messages = [\<lparr> role = User, content = Str ''Hello'' \<rparr>],
          stream = True, temperature = None, max_tokens = None, top_p = None,
          frequency_penalty = None \<rparr> \<and>
   snd (chat_completions \<lparr> api_key = ''test-secret-key'', obsidian_vault_path = ''/vault'' \<rparr> (\<lambda>p h d. AgentResult None)
       \<lparr> uuid4 = 0, utcnow_timestamp = 1700000000 \<rparr>
       \<lparr> model = ''paddy'', messages = [\<lparr> role = User, content = Str ''Hello'' \<rparr>],
          stream = True, temperature = None, max_tokens = None, top_p = None,
          frequency_penalty = None \<rparr>)
     = Inl (HTTPException 400
         ''Streaming not yet supported. Set stream to false in Copilot settings or enable CORS bypass.'')"
  using auth_and_streaming_short_circuit
    [of "''wrong-key''" "\<lparr> api_key = ''test-secret-key'', obsidian_vault_path = ''/vault'' \<rparr>"
        "\<lambda>p h d. AgentResult None" "\<lparr> uuid4 = 0, utcnow_timestamp = 1700000000 \<rparr>"
        "\<lparr> model = ''paddy'', messages = [\<lparr> role = User, content = Str ''Hello'' \<rparr>],
          stream = True, temperature = None, max_tokens = None, top_p = None,
          frequency_penalty = None \<rparr>"]
  by (simp add: chat_completions_stream)

text \<open>
  C5, as stated, speaks of every exception raised during the agent invocation. The handler
  catches the instances of \<open>Exception\<close> only: when the run raises
  \<open>asyncio.CancelledError\<close>, which is not one, the handler answers no 500; the exception
  leaves it uncaught and nothing is logged after the call of the agent.
\<close>

theorem agent_base_exception_escapes:
  "snd (chat_completions \<lparr> api_key = ''test-secret-key'', obsidian_vault_path = ''/vault'' \<rparr>
       (\<lambda>p h d. AgentRaisesBase ''CancelledError'')
       \<lparr> uuid4 = 0, utcnow_timestamp = 1700000000 \<rparr>
       \<lparr> model = ''paddy'', messages = [\<lparr> role = User, content = Str ''Hello'' \<rparr>],
          stream = False, temperature = None, max_tokens = None, top_p = None,
          frequency_penalty = None \<rparr>)
     = Inl (BaseException ''CancelledError'') \<and>
   snd (chat_completions \<lparr> api_key = ''test-secret-key'', obsidian_vault_path = ''/vault'' \<rparr>
       (\<lambda>p h d. AgentRaisesBase ''CancelledError'')
       \<lparr> uuid4 = 0, utcnow_timestamp = 1700000000 \<rparr>
       \<lparr> model = ''paddy'', messages = [\<lparr> role = User, content = Str ''Hello'' \<rparr>],
          stream = False, temperature = None, max_tokens = None, top_p = None,
          frequency_penalty = None \<rparr>)
     \<noteq> Inl (HTTPException 500 ''Agent execution failed. Check server logs for details.'') \<and>
   last (fst (chat_completions \<lparr> api_key = ''test-secret-key'', obsidian_vault_path = ''/vault'' \<rparr>
       (\<lambda>p h d. AgentRaisesBase ''CancelledError'')
       \<lparr> uuid4 = 0, utcnow_timestamp = 1700000000 \<rparr>
       \<lparr> model = ''paddy'', messages = [\<lparr> role = User, content = Str ''Hello'' \<rparr>],
          stream = False, temperature = None, max_tokens = None, top_p = None,
          frequency_penalty = None \<rparr>))
     = AgentCall ''Hello'' [] \<lparr> vault_path = ''/vault'' \<rparr>"
  by (simp add: chat_completions_def openai_messages_to_pydantic_def text_content.simps)

text \<open>
  C5, amended. When the agent run raises an instance of \<open>Exception\<close>, the handler answers
  500 with a fixed detail string in which the exception's text has no part; the text goes
  to the error log only. When the run ends without a result, the handler answers 500 with
  another fixed detail.
\<close>

theorem agent_failure_generic_500:
  assumes "\<not> stream request"
    and "openai_messages_to_pydantic (messages request) = (evs, Inr (p, h))"
  shows "(ag p h \<lparr> vault_path = obsidian_vault_path settings \<rparr> = AgentRaises e \<longrightarrow>
            snd (chat_completions settings ag env request)
              = Inl (HTTPException 500 ''Agent execution failed. Check server logs for details.'') \<and>
            last (fst (chat_completions settings ag env request))
              = Log ''error'' ''chat.completions.request_failed''
                  [(''error'', LStr e), (''exc_info'', LBool True)]) \<and>
         (ag p h \<lparr> vault_path = obsidian_vault_path settings \<rparr> = AgentResult None \<longrightarrow>
            snd (chat_completions settings ag env request)
              = Inl (HTTPException 500 ''Agent returned no result.''))"
  using assms
  by (simp add: chat_completions_agent_raises chat_completions_agent_none)

theorem agent_failure_generic_500_witness:
  "\<not> stream \<lparr> model = ''paddy'', messages = [\<lparr> role = User, content = Str ''Hello'' \<rparr>],
          stream = False, temperature = None, max_tokens = None, top_p = None,
          frequency_penalty = None \<rparr> \<and>
   snd (chat_completions \<lparr> api_key = ''test-secret-key'', obsidian_vault_path = ''/vault'' \<rparr>
       (\<lambda>p h d. AgentRaises ''connection to db-internal:5432 refused'')
       \<lparr> uuid4 = 0, utcnow_timestamp = 1700000000 \<rparr>
       \<lparr> model = ''paddy'', messages = [\<lparr> role = User, content = Str ''Hello'' \<rparr>],
          stream = False, temperature = None, max_tokens = None, top_p = None,
          frequency_penalty = None \<rparr>)
     = Inl (HTTPException 500 ''Agent execution failed. Check server logs for details.'') \<and>
   last (fst (chat_completions \<lparr> api_key = ''test-secret-key'', obsidian_vault_path = ''/vault'' \<rparr>
       (\<lambda>p h d. AgentRaises ''connection to db-internal:5432 refused'')
       \<lparr> uuid4 = 0, utcnow_timestamp = 1700000000 \<rparr>
       \<lparr> model = ''paddy'', messages = [\<lparr> role = User, content = Str ''Hello'' \<rparr>],
          stream = False, temperature = None, max_tokens = None, top_p = None,
          frequency_penalty = None \<rparr>))
     = Log ''error'' ''chat.completions.request_failed''
         [(''error'', LStr ''connection to db-internal:5432 refused''),
          (''exc_info'', LBool True)]"
  using agent_failure_generic_500
    [where request = "\<lparr> model = ''paddy'', messages = [\<lparr> role = User, content = Str ''Hello'' \<rparr>],
          stream = False, temperature = None, max_tokens = None, top_p = None,
          frequency_penalty = None \<rparr>"
       and evs = "[Log ''info'' ''adapter.openai.messages_converted''
                    [(''total_messages'', LInt 1), (''history_messages'', LInt 0),
                     (''system_messages_skipped'', LInt 0)]]"
       and p = "''Hello''" and h = "[]"
       and ag = "\<lambda>p h d. AgentRaises ''connection to db-internal:5432 refused''"
       and settings = "\<lparr> api_key = ''test-secret-key'', obsidian_vault_path = ''/vault'' \<rparr>"
       and e = "''connection to db-internal:5432 refused''"
       and env = "\<lparr> uuid4 = 0, utcnow_timestamp = 1700000000 \<rparr>"]
  by (simp add: openai_messages_to_pydantic_def text_content.simps)

text \<open>
  C6. Two requests that agree on \<open>model\<close>, \<open>messages\<close> and \<open>stream\<close>, and so differ at
  most in \<open>temperature\<close>, \<open>max_tokens\<close>, \<open>top_p\<close> and \<open>frequency_penalty\<close>, make the
  handler do the same: the same events, among them the same call of the agent with the
  same prompt, history and dependencies, and the same answer.
\<close>

theorem tuning_parameters_not_forwarded:
  assumes "model r1 = model r2" and "messages r1 = messages r2" and "stream r1 = stream r2"
  shows "chat_completions settings ag env r1 = chat_completions settings ag env r2 \<and>
         agent_calls (fst (chat_completions settings ag env r1))
           = agent_calls (fst (chat_completions settings ag env r2))"
proof -
  have "chat_completions settings ag env r1 = chat_completions settings ag env r2"
    unfolding chat_completions_def assms ..
  then show ?thesis by simp
qed

theorem tuning_parameters_not_forwarded_witness:
  "model \<lparr> model = ''paddy'', messages = [\<lparr> role = User, content = Str ''Hello'' \<rparr>],
          stream = False, temperature = Some 0.2, max_tokens = Some 16, top_p = Some 0.9,
          frequency_penalty = Some 1.5 \<rparr>
     = model \<lparr> model = ''paddy'', messages = [\<lparr> role = User, content = Str ''Hello'' \<rparr>],
          stream = False, temperature = None, max_tokens = None, top_p = None,
          frequency_penalty = None \<rparr> \<and>
   agent_calls (fst (chat_completions \<lparr> api_key = ''test-secret-key'', obsidian_vault_path = ''/vault'' \<rparr>
       (\<lambda>p h d. AgentResult None) \<lparr> uuid4 = 0, utcnow_timestamp = 1700000000 \<rparr>
       \<lparr> model = ''paddy'', messages = [\<lparr> role = User, content = Str ''Hello'' \<rparr>],
          stream = False, temperature = Some 0.2, max_tokens = Some 16, top_p = Some 0.9,
          frequency_penalty = Some 1.5 \<rparr>))
     = agent_calls (fst (chat_completions \<lparr> api_key = ''test-secret-key'', obsidian_vault_path = ''/vault'' \<rparr>
       (\<lambda>p h d. AgentResult None) \<lparr> uuid4 = 0, utcnow_timestamp = 1700000000 \<rparr>
       \<lparr> model = ''paddy'', messages = [\<lparr> role = User, content = Str ''Hello'' \<rparr>],
          stream = False, temperature = None, max_tokens = None, top_p = None,
          frequency_penalty = None \<rparr>)) \<and>
   agent_calls (fst (chat_completions \<lparr> api_key = ''test-secret-key'', obsidian_vault_path = ''/vault'' \<rparr>
       (\<lambda>p h d. AgentResult None) \<lparr> uuid4 = 0, utcnow_timestamp = 1700000000 \<rparr>
       \<lparr> model = ''paddy'', messages = [\<lparr> role = User, content = Str ''Hello'' \<rparr>],
          stream = False, temperature = None, max_tokens = None, top_p = None,
          frequency_penalty = None \<rparr>))
     = [AgentCall ''Hello'' [] \<lparr> vault_path = ''/vault'' \<rparr>]"
  using tuning_parameters_not_forwarded
    [of "\<lparr> model = ''paddy'', messages = [\<lparr> role = User, content = Str ''Hello'' \<rparr>],
          stream = False, temperature = Some 0.2, max_tokens = Some 16, top_p = Some 0.9,
          frequency_penalty = Some 1.5 \<rparr>"
        "\<lparr> model = ''paddy'', messages = [\<lparr> role = User, content = Str ''Hello'' \<rparr>],
          stream = False, temperature = None, max_tokens = None, top_p = None,
          frequency_penalty = None \<rparr>"
        "\<lparr> api_key = ''test-secret-key'', obsidian_vault_path = ''/vault'' \<rparr>" "\<lambda>p h d. AgentResult None"
        "\<lparr> uuid4 = 0, utcnow_timestamp = 1700000000 \<rparr>"]
  by (simp add: chat_completions_def openai_messages_to_pydantic_def text_content.simps
      agent_calls_def)

section \<open>Claim on the exception handler\<close>

text \<open>
  C7. The exception handler first logs one error record with the error type, the message,
  the request path and the request method, and then answers 404 for a
  \<open>NoteNotFoundError\<close>, 400 for a \<open>VaultPathError\<close> and 500 for the other classes of the
  hierarchy.
\<close>

theorem paddy_exception_handler_status:
  "fst (paddy_exception_handler request exc)
     = [Log ''error'' ''vault.exception_raised''
          [(''error_type'', LStr (class_name (exc_type exc))),
           (''error_message'', LStr (exc_message exc)),
           (''path'', LStr (url_path request)),
           (''method'', LStr (http_method request)),
           (''exc_info'', LBool True)]] \<and>
   (exc_type exc = NoteNotFoundError \<longrightarrow>
      status_code (snd (paddy_exception_handler request exc)) = 404) \<and>
   (exc_type exc = VaultPathError \<longrightarrow>
      status_code (snd (paddy_exception_handler request exc)) = 400) \<and>
   (exc_type exc = PaddyError \<or> exc_type exc = VaultError \<longrightarrow>
      status_code (snd (paddy_exception_handler request exc)) = 500)"
  by (auto simp: paddy_exception_handler_def isinstance_def issubclass_def)

theorem paddy_exception_handler_status_witness:
  "exc_type \<lparr> exc_type = NoteNotFoundError, exc_message = ''Missing note'' \<rparr> = NoteNotFoundError \<and>
   status_code (snd (paddy_exception_handler
       \<lparr> url_path = ''/test/path'', http_method = ''GET'' \<rparr>
       \<lparr> exc_type = NoteNotFoundError, exc_message = ''Missing note'' \<rparr>)) = 404 \<and>
   fst (paddy_exception_handler
       \<lparr> url_path = ''/test/path'', http_method = ''GET'' \<rparr>
       \<lparr> exc_type = NoteNotFoundError, exc_message = ''Missing note'' \<rparr>)
     = [Log ''error'' ''vault.exception_raised''
          [(''error_type'', LStr ''NoteNotFoundError''),
           (''error_message'', LStr ''Missing note''),
           (''path'', LStr ''/test/path''),
           (''method'', LStr ''GET''),
           (''exc_info'', LBool True)]]"
  using paddy_exception_handler_status
    [of "\<lparr> url_path = ''/test/path'', http_method = ''GET'' \<rparr>"
        "\<lparr> exc_type = NoteNotFoundError, exc_message = ''Missing note'' \<rparr>"]
  by simp

section \<open>Claims on the response builder\<close>

text \<open>
  C10. Every identifier built by \<open>build_chat_response\<close> is the 9 characters
  \<open>chatcmpl-\<close> followed by exactly 29 lowercase hexadecimal digits, 38 characters in all.
\<close>

theorem response_id_format:
  "cr_id (build_chat_response env output m rt rs tt)
     = ''chatcmpl-'' @ take 29 (uuid_hex (uuid4 env)) \<and>
   length ''chatcmpl-'' = 9 \<and>
   length (take 29 (uuid_hex (uuid4 env))) = 29 \<and>
   set (take 29 (uuid_hex (uuid4 env))) \<subseteq> set ''0123456789abcdef'' \<and>
   length (cr_id (build_chat_response env output m rt rs tt)) = 38"
proof -
  have "set (take 29 (uuid_hex (uuid4 env))) \<subseteq> set (uuid_hex (uuid4 env))"
    by (rule set_take_subset)
  then have "set (take 29 (uuid_hex (uuid4 env))) \<subseteq> set ''0123456789abcdef''"
    using set_uuid_hex [of "uuid4 env"] by (rule subset_trans)
  then show ?thesis
    by (simp add: cr_id_build_chat_response length_uuid_hex)
qed

theorem response_id_format_witness:
  "cr_id (build_chat_response
       \<lparr> uuid4 = 0x123e4567e89b42d3a456426614174000, utcnow_timestamp = 1700000000 \<rparr>
       ''The answer is 42'' ''paddy'' (Some 50) (Some 10) (Some 60))
     = ''chatcmpl-123e4567e89b42d3a456426614174'' \<and>
   length (cr_id (build_chat_response
       \<lparr> uuid4 = 0x123e4567e89b42d3a456426614174000, utcnow_timestamp = 1700000000 \<rparr>
       ''The answer is 42'' ''paddy'' (Some 50) (Some 10) (Some 60))) = 38"
  using response_id_format
    [of "\<lparr> uuid4 = 0x123e4567e89b42d3a456426614174000, utcnow_timestamp = 1700000000 \<rparr>"
        "''The answer is 42''" "''paddy''" "Some 50" "Some 10" "Some 60"]
  by (simp add: uuid_hex_def hex_digit_def upt_rec drop_bit_eq_div)

text \<open>
  C3, as stated, asks that any two successive calls produce distinct identifiers. The
  identifier keeps 29 of the 32 hexadecimal digits of the UUID, so two calls that draw
  different UUIDs agreeing on these digits return the same identifier: here two version-4
  UUIDs that differ in their last three digits.
\<close>

theorem successive_ids_collide:
  "(0x123e4567e89b42d3a456426614174000 :: 128 word) \<noteq> 0x123e4567e89b42d3a456426614174fff \<and>
   cr_id (build_chat_response
       \<lparr> uuid4 = 0x123e4567e89b42d3a456426614174000, utcnow_timestamp = 1700000000 \<rparr>
       ''test'' ''paddy'' None None None)
     = cr_id (build_chat_response
       \<lparr> uuid4 = 0x123e4567e89b42d3a456426614174fff, utcnow_timestamp = 1700000001 \<rparr>
       ''test'' ''paddy'' None None None)"
  by (simp add: cr_id_build_chat_response take_29_uuid_hex_eq_iff drop_bit_eq_div)

text \<open>
  C3, amended. For every input, the response has \<open>object = "chat.completion"\<close>, exactly one
  choice with \<open>finish_reason = "stop"\<close>, role \<open>"assistant"\<close> and the given output as its
  content, each token count that is \<open>None\<close> replaced by zero and every other count passed
  through, and an identifier that starts with \<open>chatcmpl-\<close>. Two calls return distinct
  identifiers exactly when the UUIDs they draw differ in their first 29 hexadecimal digits,
  that is in the bits above the lowest twelve.
\<close>

theorem build_chat_response_shape:
  "cr_object (build_chat_response env output m rt rs tt) = ''chat.completion'' \<and>
   cr_choices (build_chat_response env output m rt rs tt)
     = [\<lparr> index = 0,
          message = \<lparr> rm_role = ''assistant'', rm_content = output \<rparr>,
          finish_reason = ''stop'' \<rparr>] \<and>
   cr_usage (build_chat_response env output m rt rs tt)
     = \<lparr> prompt_tokens = (case rt of None \<Rightarrow> 0 | Some k \<Rightarrow> k),
         completion_tokens = (case rs of None \<Rightarrow> 0 | Some k \<Rightarrow> k),
         total_tokens = (case tt of None \<Rightarrow> 0 | Some k \<Rightarrow> k) \<rparr> \<and>
   take 9 (cr_id (build_chat_response env output m rt rs tt)) = ''chatcmpl-'' \<and>
   (cr_id (build_chat_response env output m rt rs tt)
      = cr_id (build_chat_response env' output' m' rt' rs' tt')
    \<longleftrightarrow> drop_bit 12 (uuid4 env) = drop_bit 12 (uuid4 env'))"
  by (simp add: cr_id_build_chat_response take_29_uuid_hex_eq_iff)
    (simp add: build_chat_response_def or_zero_case)

theorem build_chat_response_shape_witness:
  "cr_usage (build_chat_response
       \<lparr> uuid4 = 0x123e4567e89b42d3a456426614174000, utcnow_timestamp = 1700000000 \<rparr>
       ''test'' ''paddy'' (Some 50) None (Some 0))
     = \<lparr> prompt_tokens = 50, completion_tokens = 0, total_tokens = 0 \<rparr> \<and>
   cr_id (build_chat_response
       \<lparr> uuid4 = 0x123e4567e89b42d3a456426614174000, utcnow_timestamp = 1700000000 \<rparr>
       ''test'' ''paddy'' (Some 50) None (Some 0))
     \<noteq> cr_id (build_chat_response
       \<lparr> uuid4 = 0x223e4567e89b42d3a456426614174000, utcnow_timestamp = 1700000000 \<rparr>
       ''test'' ''paddy'' (Some 50) None (Some 0))"
  using build_chat_response_shape
    [of "\<lparr> uuid4 = 0x123e4567e89b42d3a456426614174000, utcnow_timestamp = 1700000000 \<rparr>"
        "''test''" "''paddy''" "Some 50" None "Some 0"
        "\<lparr> uuid4 = 0x223e4567e89b42d3a456426614174000, utcnow_timestamp = 1700000000 \<rparr>"
        "''test''" "''paddy''" "Some 50" None "Some 0"]
  by (simp add: drop_bit_eq_div)

end
